theory Spec2Isabelle
  imports Main
begin

section \<open>Strings and small utilities\<close>

text \<open>
  JavaScript strings are modelled as \<^typ>\<open>string\<close>. Every character the program inspects
  (the five HTML-special characters, the letters and digits of the file extensions, the
  comma of a data URL) is ASCII; a character outside ASCII is carried as the bytes of its
  UTF-8 encoding, none of which is an ASCII byte, so per-character replacement and suffix
  matching agree with the source on such text.
\<close>

text \<open>\<^verbatim>\<open>String(n)\<close> for a non-negative integer: its decimal digits.\<close>

definition digit_char :: "nat \<Rightarrow> char" where
  "digit_char d = ''0123456789'' ! d"

fun string_of_nat :: "nat \<Rightarrow> string" where
  "string_of_nat n =
     (if n < 10 then [digit_char n]
      else string_of_nat (n div 10) @ [digit_char (n mod 10)])"

declare string_of_nat.simps [simp del]

text \<open>\<^verbatim>\<open>s.padStart(n, '0')\<close>: zeros in front until the length is at least \<open>n\<close>.\<close>

definition padStart :: "nat \<Rightarrow> char \<Rightarrow> string \<Rightarrow> string" where
  "padStart n c s = replicate (n - length s) c @ s"

text \<open>
  \<^verbatim>\<open>s.replace(/c/g, r)\<close> for a pattern that is one literal character and a replacement
  without dollar patterns: every occurrence of the character becomes \<open>r\<close>.
\<close>

fun replace_all :: "char \<Rightarrow> string \<Rightarrow> string \<Rightarrow> string" where
  "replace_all c r [] = []"
| "replace_all c r (x # xs) = (if x = c then r @ replace_all c r xs else x # replace_all c r xs)"

definition ends_with :: "string \<Rightarrow> string \<Rightarrow> bool" where
  "ends_with s suf = (length suf \<le> length s \<and> drop (length s - length suf) s = suf)"

definition starts_with :: "string \<Rightarrow> string \<Rightarrow> bool" where
  "starts_with s pre = (take (length pre) s = pre)"

section \<open>escapeHtml\<close>

text \<open>
  \<^verbatim>\<open>
  function escapeHtml(text) {
    if (!text) return '';
    return text.toString()
      .replace(/&/g, '&amp;') .replace(/</g, '&lt;') .replace(/>/g, '&gt;')
      .replace(/"/g, '&quot;') .replace(/'/g, '&#039;');
  }
  \<close>
  A text field of the payload is a \<^typ>\<open>string option\<close>: \<open>None\<close> is a field that is
  absent (\<^verbatim>\<open>undefined\<close> or \<^verbatim>\<open>null\<close>). Both \<open>None\<close> and the empty string are falsy.
\<close>

definition falsy :: "string option \<Rightarrow> bool" where
  "falsy t = (case t of None \<Rightarrow> True | Some s \<Rightarrow> s = [])"

definition escapeHtml :: "string option \<Rightarrow> string" where
  "escapeHtml text =
     (case text of
        None \<Rightarrow> []
      | Some s \<Rightarrow>
          if s = [] then []
          else replace_all (CHR 0x27) ''&#039;''
                (replace_all (CHR 0x22) ''&quot;''
                  (replace_all CHR ''>'' ''&gt;''
                    (replace_all CHR ''<'' ''&lt;''
                      (replace_all CHR ''&'' ''&amp;'' s)))))"

text \<open>The entity of one character, as the claim words it.\<close>

definition entity_of :: "char \<Rightarrow> string" where
  "entity_of c =
     (if c = CHR ''&'' then ''&amp;''
      else if c = CHR ''<'' then ''&lt;''
      else if c = CHR ''>'' then ''&gt;''
      else if c = CHR 0x22 then ''&quot;''
      else if c = CHR 0x27 then ''&#039;''
      else [c])"

definition entities :: "string list" where
  "entities = [''&amp;'', ''&lt;'', ''&gt;'', ''&quot;'', ''&#039;'']"

text \<open>
  A text has no special character in raw form when \<open><\<close>, \<open>>\<close>, the double quote and the
  apostrophe do not occur in it and every \<open>&\<close> in it starts one of the five entities.
\<close>

fun no_raw_special :: "string \<Rightarrow> bool" where
  "no_raw_special [] = True"
| "no_raw_special (c # cs) =
     ((if c = CHR ''&'' then list_ex (starts_with (c # cs)) entities
       else c \<noteq> CHR ''<'' \<and> c \<noteq> CHR ''>'' \<and> c \<noteq> CHR 0x22 \<and> c \<noteq> CHR 0x27)
      \<and> no_raw_special cs)"


section \<open>Program state\<close>

text \<open>
  The module variables of \<^verbatim>\<open>app.js\<close> and the properties of the page elements the script
  reads or writes form one state record; every handler is a function on it.
\<close>

datatype mode = Upload | Record

record js_file =
  file_name :: string
  file_type :: string
  file_size :: nat

record blob =
  blob_bytes :: "nat list"
  blob_type :: string

datatype recorder_state = Inactive | Recording | Paused

datatype stage = Transcribe | Summarize | Quiz | Flash

text \<open>
  The class list of a step element, as far as the script touches it: it removes
  \<^verbatim>\<open>active\<close> and \<^verbatim>\<open>done\<close> and then adds at most one of them.
\<close>

datatype step_class = Pending | Active | Done

record quiz_item =
  question :: "string option"
  answer :: "string option"

record flashcard =
  card_front :: "string option"
  card_back :: "string option"

text \<open>
  The JSON object answered by the transcription endpoint. \<open>p_success\<close> is the truthiness
  of \<^verbatim>\<open>data.success\<close>; the empty object \<^verbatim>\<open>{}\<close> has every field absent.
\<close>

record payload =
  p_success :: bool
  p_error :: "string option"
  p_transcript :: "string option"
  p_summary :: "string option"
  p_bullets :: "string list option"
  p_quiz :: "quiz_item list option"
  p_flashcards :: "flashcard list option"

definition empty_object :: payload where
  "empty_object =
     \<lparr>p_success = False, p_error = None, p_transcript = None, p_summary = None,
      p_bullets = None, p_quiz = None, p_flashcards = None\<rparr>"

text \<open>What the template of one quiz block and of one flashcard interpolates.\<close>

record quiz_view =
  qv_number :: string
  qv_question :: string
  qv_answer :: string

record card_view =
  cv_front :: string
  cv_back :: string

datatype request =
    TranscribeForm js_file
  | TranscribeJson "string option"
  | GeneratePdf payload

record app_state =
  \<comment> \<open>module variables\<close>
  mediaRecorder :: "recorder_state option"
  audioChunks :: "blob list"
  recordingTimer :: "nat option"
  recordingSeconds :: nat
  uploadedFile :: "js_file option"
  recordedBlob :: "blob option"
  activeMode :: mode
  notesData :: payload
  \<comment> \<open>browser resources\<close>
  intervals :: "nat list"
  next_interval :: nat
  open_streams :: nat
  toast_timeouts :: nat
  requests :: "request list"
  downloads :: "(string \<times> blob) list"
  \<comment> \<open>page elements\<close>
  tab_active :: mode
  fileInput_value :: string
  fileNameDisp_text :: string
  filePreview_hidden :: bool
  recordBtn_hidden :: bool
  stopBtn_hidden :: bool
  timerEl_text :: string
  recStatus_text :: string
  micVisual_recording :: bool
  audioPlayback_hidden :: bool
  audioPlayback_src :: "blob option"
  generateBtn_disabled :: bool
  btnText_hidden :: bool
  btnLoader_hidden :: bool
  overlay_hidden :: bool
  step_cls :: "step_class list"
  resultsSection_hidden :: bool
  downloadBtn_text :: string
  downloadBtn_disabled :: bool
  toastMsg_text :: string
  errorToast_hidden :: bool
  transcript_text :: string
  summary_text :: string
  bullets_list :: "string list"
  quiz_grid :: "quiz_view list"
  flashcard_grid :: "card_view list"

text \<open>
  The state when the script has been loaded: the module variables as their declarations
  initialise them (lines 15 to 22), the resources untouched, and the page elements as the
  page \<open>page\<close> has them (the markup is not part of the script).
\<close>

definition init_state :: "app_state \<Rightarrow> app_state" where
  "init_state page =
     page\<lparr>mediaRecorder := None, audioChunks := [], recordingTimer := None,
          recordingSeconds := 0, uploadedFile := None, recordedBlob := None,
          activeMode := Upload, notesData := empty_object,
          intervals := [], next_interval := 0, open_streams := 0, toast_timeouts := 0,
          requests := [], downloads := []\<rparr>"

section \<open>Error toast, loading state, generate gate\<close>

text \<open>
  \<^verbatim>\<open>showError\<close> writes the message, shows the toast and arms a timeout of six seconds that
  hides it again; \<^verbatim>\<open>toast_expire\<close> is that timeout firing.
\<close>

definition showError :: "string \<Rightarrow> app_state \<Rightarrow> app_state" where
  "showError message s =
     s\<lparr>toastMsg_text := message, errorToast_hidden := False,
       toast_timeouts := Suc (toast_timeouts s)\<rparr>"

definition toast_expire :: "app_state \<Rightarrow> app_state" where
  "toast_expire s = s\<lparr>errorToast_hidden := True, toast_timeouts := toast_timeouts s - 1\<rparr>"

definition setLoading :: "bool \<Rightarrow> app_state \<Rightarrow> app_state" where
  "setLoading isLoading s =
     s\<lparr>generateBtn_disabled := isLoading, btnText_hidden := isLoading,
       btnLoader_hidden := (\<not> isLoading)\<rparr>"

definition updateGenerateBtn :: "app_state \<Rightarrow> app_state" where
  "updateGenerateBtn s =
     (let hasUpload = (activeMode s = Upload \<and> uploadedFile s \<noteq> None);
          hasRecord = (activeMode s = Record \<and> recordedBlob s \<noteq> None)
      in s\<lparr>generateBtn_disabled := (\<not> (hasUpload \<or> hasRecord))\<rparr>)"

definition switch_tab :: "mode \<Rightarrow> app_state \<Rightarrow> app_state" where
  "switch_tab m s = updateGenerateBtn (s\<lparr>tab_active := m, activeMode := m\<rparr>)"

section \<open>Upload selection\<close>

text \<open>
  The \<^verbatim>\<open>i\<close> flag of a regular expression without the \<^verbatim>\<open>u\<close> flag compares characters by
  their upper-case forms, and never lets a character outside ASCII equal an ASCII one.
\<close>

definition upper_ascii :: "char \<Rightarrow> char" where
  "upper_ascii c =
     (case map_of (zip ''abcdefghijklmnopqrstuvwxyz'' ''ABCDEFGHIJKLMNOPQRSTUVWXYZ'') c of
        None \<Rightarrow> c
      | Some u \<Rightarrow> u)"

definition allowed :: "string list" where
  "allowed = [''audio/mpeg'', ''audio/wav'', ''audio/webm'', ''audio/ogg'',
              ''audio/mp4'', ''video/mp4'', ''audio/x-m4a'']"

definition extension_alternatives :: "string list" where
  "extension_alternatives = [''mp3'', ''wav'', ''webm'', ''ogg'', ''m4a'', ''mp4'']"

text \<open>\<^verbatim>\<open>name.match(/\.(mp3|wav|webm|ogg|m4a|mp4)$/i)\<close> is truthy.\<close>

definition extension_match :: "string \<Rightarrow> bool" where
  "extension_match name =
     list_ex (\<lambda>alt. ends_with (map upper_ascii name) (map upper_ascii (CHR ''.'' # alt)))
       extension_alternatives"

text \<open>
  \<^verbatim>\<open>(x).toFixed(1)\<close> for \<open>x = num / den\<close> with \<open>den\<close> a power of two: the quotient is exact
  in double precision for every size below \<open>2 ^ 53\<close>, and \<^verbatim>\<open>toFixed\<close> takes the integer \<open>n\<close>
  with \<open>n / 10\<close> nearest to \<open>x\<close>, the larger one on a tie.
\<close>

definition toFixed1 :: "nat \<Rightarrow> nat \<Rightarrow> string" where
  "toFixed1 num den =
     (let n = (20 * num + den) div (2 * den)
      in string_of_nat (n div 10) @ ''.'' @ string_of_nat (n mod 10))"

definition formatBytes :: "nat \<Rightarrow> string" where
  "formatBytes bytes =
     (if bytes < 1024 then string_of_nat bytes @ '' B''
      else if bytes < 1024 * 1024 then toFixed1 bytes 1024 @ '' KB''
      else toFixed1 bytes (1024 * 1024) @ '' MB'')"

definition paperclip :: string where
  "paperclip = [CHR 0xF0, CHR 0x9F, CHR 0x93, CHR 0x8E]"

definition unsupported_format_message :: string where
  "unsupported_format_message = ''Please upload an audio file (MP3, WAV, WebM, OGG, M4A)''"

definition handleFileSelect :: "js_file \<Rightarrow> app_state \<Rightarrow> app_state" where
  "handleFileSelect f s =
     (if \<not> file_type f \<in> set allowed \<and> \<not> extension_match (file_name f)
      then showError unsupported_format_message s
      else updateGenerateBtn
             (s\<lparr>uploadedFile := Some f,
                fileNameDisp_text :=
                  paperclip @ '' '' @ file_name f @ '' ('' @ formatBytes (file_size f) @ '')'',
                filePreview_hidden := False\<rparr>))"

definition remove_file :: "app_state \<Rightarrow> app_state" where
  "remove_file s =
     updateGenerateBtn (s\<lparr>uploadedFile := None, fileInput_value := [], filePreview_hidden := True\<rparr>)"

section \<open>Microphone recording\<close>

text \<open>
  What the browser answers when \<^verbatim>\<open>startRecording\<close> asks for the microphone and then builds a
  recorder on the stream: \<^verbatim>\<open>getUserMedia\<close> rejects; or it resolves and the constructor of
  the recorder throws because the container is not supported; or both succeed.
\<close>

datatype acquisition = PermissionDenied | RecorderUnsupported | Acquired

definition microphone_message :: string where
  "microphone_message =
     ''Microphone access denied. Please allow microphone permission in your browser.''"

definition recording_status :: string where
  "recording_status = [CHR 0xF0, CHR 0x9F, CHR 0x94, CHR 0xB4] @ '' Recording in progress...''"

definition saved_status :: string where
  "saved_status = [CHR 0xE2, CHR 0x9C, CHR 0x85] @ '' Recording saved! Preview below.''"

text \<open>The block under the comment \<^verbatim>\<open>Reset state\<close> (lines 113 to 118).\<close>

definition reset_session :: "app_state \<Rightarrow> app_state" where
  "reset_session s =
     s\<lparr>audioChunks := [], recordedBlob := None, recordingSeconds := 0,
       timerEl_text := ''00:00'', audioPlayback_hidden := True, audioPlayback_src := None\<rparr>"

definition startRecording :: "acquisition \<Rightarrow> app_state \<Rightarrow> app_state" where
  "startRecording acq s =
     (case acq of
        PermissionDenied \<Rightarrow> showError microphone_message s
      | RecorderUnsupported \<Rightarrow>
          showError microphone_message (reset_session (s\<lparr>open_streams := Suc (open_streams s)\<rparr>))
      | Acquired \<Rightarrow>
          (let s1 = reset_session (s\<lparr>open_streams := Suc (open_streams s)\<rparr>);
               s2 = s1\<lparr>mediaRecorder := Some Recording\<rparr>;
               s3 = s2\<lparr>recordBtn_hidden := True, stopBtn_hidden := False,
                       micVisual_recording := True, recStatus_text := recording_status\<rparr>
           in s3\<lparr>recordingTimer := Some (next_interval s3),
                 intervals := intervals s3 @ [next_interval s3],
                 next_interval := Suc (next_interval s3)\<rparr>))"

text \<open>The callback of the one-second interval.\<close>

definition timer_tick :: "app_state \<Rightarrow> app_state" where
  "timer_tick s =
     (let secs = Suc (recordingSeconds s);
          m = padStart 2 CHR ''0'' (string_of_nat (secs div 60));
          sec = padStart 2 CHR ''0'' (string_of_nat (secs mod 60))
      in s\<lparr>recordingSeconds := secs, timerEl_text := m @ '':'' @ sec\<rparr>)"

definition ondataavailable :: "blob \<Rightarrow> app_state \<Rightarrow> app_state" where
  "ondataavailable chunk s =
     (if length (blob_bytes chunk) > 0 then s\<lparr>audioChunks := audioChunks s @ [chunk]\<rparr> else s)"

definition onstop :: "app_state \<Rightarrow> app_state" where
  "onstop s =
     (let b = \<lparr>blob_bytes = concat (map blob_bytes (audioChunks s)), blob_type = ''audio/webm''\<rparr>
      in updateGenerateBtn
           (s\<lparr>recordedBlob := Some b, audioPlayback_src := Some b,
              audioPlayback_hidden := False, open_streams := open_streams s - 1\<rparr>))"

datatype js_error = InvalidStateError

text \<open>
  \<^verbatim>\<open>MediaRecorder.stop()\<close>: an error on a recorder that is inactive, otherwise the recorder
  becomes inactive and the events \<^verbatim>\<open>dataavailable\<close> and \<^verbatim>\<open>stop\<close> are queued.
\<close>

definition recorder_stop :: "recorder_state \<Rightarrow> js_error + recorder_state" where
  "recorder_stop r = (if r = Inactive then Inl InvalidStateError else Inr Inactive)"

definition clearInterval :: "nat option \<Rightarrow> app_state \<Rightarrow> app_state" where
  "clearInterval t s =
     (case t of None \<Rightarrow> s | Some i \<Rightarrow> s\<lparr>intervals := removeAll i (intervals s)\<rparr>)"

definition stop_cleanup :: "app_state \<Rightarrow> app_state" where
  "stop_cleanup s =
     (clearInterval (recordingTimer s) s)
       \<lparr>recordBtn_hidden := False, stopBtn_hidden := True,
        micVisual_recording := False, recStatus_text := saved_status\<rparr>"

definition stopRecording :: "app_state \<Rightarrow> js_error + app_state" where
  "stopRecording s =
     (case mediaRecorder s of
        None \<Rightarrow> Inr (stop_cleanup s)
      | Some r \<Rightarrow>
          if r \<noteq> Inactive then
            (case recorder_stop r of
               Inl e \<Rightarrow> Inl e
             | Inr r' \<Rightarrow> Inr (stop_cleanup (s\<lparr>mediaRecorder := Some r'\<rparr>)))
          else Inr (stop_cleanup s))"

text \<open>Whether the click on the stop button queues the recorder's \<^verbatim>\<open>stop\<close> event.\<close>

definition stop_event_queued :: "app_state \<Rightarrow> bool" where
  "stop_event_queued s = (case mediaRecorder s of None \<Rightarrow> False | Some r \<Rightarrow> r \<noteq> Inactive)"

text \<open>
  The user action of stopping: the click handler, and then the queued events, the last
  chunk of data first.
\<close>

definition record_stop :: "blob \<Rightarrow> app_state \<Rightarrow> app_state" where
  "record_stop final_chunk s =
     (case stopRecording s of
        Inl e \<Rightarrow> s
      | Inr s1 \<Rightarrow> if stop_event_queued s then onstop (ondataavailable final_chunk s1) else s1)"

section \<open>Sequences of user actions\<close>

datatype action =
    SelectUpload js_file
  | ClearUpload
  | SwitchTab mode
  | RecordStart acquisition
  | RecordStop blob

fun perform :: "action \<Rightarrow> app_state \<Rightarrow> app_state" where
  "perform (SelectUpload f) s = handleFileSelect f s"
| "perform ClearUpload s = remove_file s"
| "perform (SwitchTab m) s = switch_tab m s"
| "perform (RecordStart acq) s = startRecording acq s"
| "perform (RecordStop chunk) s = record_stop chunk s"

fun run :: "action list \<Rightarrow> app_state \<Rightarrow> app_state" where
  "run [] s = s"
| "run (a # as) s = run as (perform a s)"

text \<open>Readiness as the claim words it: the selection that matches the active mode is present.\<close>

definition isGenerateReady :: "app_state \<Rightarrow> bool" where
  "isGenerateReady s =
     ((activeMode s = Upload \<and> uploadedFile s \<noteq> None) \<or>
      (activeMode s = Record \<and> recordedBlob s \<noteq> None))"

section \<open>Rendering the results\<close>

text \<open>\<^verbatim>\<open>a || b\<close> on a text field, and \<^verbatim>\<open>(a || [])\<close> on an array field (an array is truthy).\<close>

definition or_else :: "string option \<Rightarrow> string \<Rightarrow> string" where
  "or_else t d = (case t of None \<Rightarrow> d | Some x \<Rightarrow> if x = [] then d else x)"

definition or_empty :: "'a list option \<Rightarrow> 'a list" where
  "or_empty xs = (case xs of None \<Rightarrow> [] | Some ys \<Rightarrow> ys)"

definition render_quiz_item :: "nat \<Rightarrow> quiz_item \<Rightarrow> quiz_view" where
  "render_quiz_item i item =
     \<lparr>qv_number = ''Question '' @ string_of_nat (i + 1),
      qv_question = escapeHtml (question item),
      qv_answer = escapeHtml (answer item)\<rparr>"

definition render_flashcard :: "flashcard \<Rightarrow> card_view" where
  "render_flashcard fc =
     \<lparr>cv_front = escapeHtml (card_front fc), cv_back = escapeHtml (card_back fc)\<rparr>"

definition displayResults :: "payload \<Rightarrow> app_state \<Rightarrow> app_state" where
  "displayResults data s =
     s\<lparr>resultsSection_hidden := False,
       transcript_text := or_else (p_transcript data) ''Transcript not available.'',
       summary_text := or_else (p_summary data) ''Summary not available.'',
       bullets_list := or_empty (p_bullets data),
       quiz_grid :=
         map (\<lambda>(i, item). render_quiz_item i item) (enumerate 0 (or_empty (p_quiz data))),
       flashcard_grid := map render_flashcard (or_empty (p_flashcards data))\<rparr>"

section \<open>Processing overlay\<close>

definition steps :: "stage list" where
  "steps = [Transcribe, Summarize, Quiz, Flash]"

text \<open>\<^verbatim>\<open>Array.prototype.indexOf\<close>: the first position of the element, \<open>-1\<close> when it is absent.\<close>

fun indexOf :: "'a list \<Rightarrow> 'a \<Rightarrow> int" where
  "indexOf [] x = -1"
| "indexOf (y # ys) x =
     (if y = x then 0 else (let r = indexOf ys x in if r < 0 then -1 else r + 1))"

definition showProcessingOverlay :: "app_state \<Rightarrow> app_state" where
  "showProcessingOverlay s =
     s\<lparr>overlay_hidden := False, step_cls := map (\<lambda>st. Pending) steps\<rparr>"

definition hideProcessingOverlay :: "app_state \<Rightarrow> app_state" where
  "hideProcessingOverlay s = s\<lparr>overlay_hidden := True\<rparr>"

definition setStep :: "stage \<Rightarrow> app_state \<Rightarrow> app_state" where
  "setStep currentStep s =
     (let idx = indexOf steps currentStep
      in s\<lparr>step_cls :=
             map (\<lambda>(i, st). if int i < idx then Done else if int i = idx then Active else Pending)
               (enumerate 0 steps)\<rparr>)"

section \<open>The generation pipeline\<close>

text \<open>
  A promise settles: it rejects with an error, of which the handlers read only the message
  (the error event of the file reader has none, and the toast then gets the empty text), or
  it resolves to a value.
\<close>

datatype 'a promise = Rejected string | Resolved 'a

record response =
  resp_ok :: bool
  resp_status :: nat
  resp_json :: "payload promise"
  resp_blob :: "blob promise"

text \<open>
  What the surroundings answer during one click on the generate button: the file reader
  of \<^verbatim>\<open>blobToBase64\<close> (a data URL), \<^verbatim>\<open>fetch\<close>, and the message of the error raised by
  reading a property of \<^verbatim>\<open>undefined\<close>.
\<close>

record generate_env =
  env_reader :: "string promise"
  env_fetch :: "response promise"
  env_undefined_message :: string

text \<open>\<^verbatim>\<open>reader.result.split(',')[1]\<close>: the text between the first and the second comma.\<close>

definition after_first_comma :: "string \<Rightarrow> string option" where
  "after_first_comma url =
     (case dropWhile (\<lambda>c. c \<noteq> CHR '','') url of
        [] \<Rightarrow> None
      | c # rest \<Rightarrow> Some (takeWhile (\<lambda>c. c \<noteq> CHR '','') rest))"

text \<open>
  A run of the handler is the list of the states it passes through, one entry for each
  update it makes, the callbacks of its two timeouts included.
\<close>

definition emit :: "(app_state \<Rightarrow> app_state) \<Rightarrow> app_state list \<Rightarrow> app_state list" where
  "emit f tr = tr @ [f (last tr)]"

definition send :: "request \<Rightarrow> app_state \<Rightarrow> app_state" where
  "send r s = s\<lparr>requests := requests s @ [r]\<rparr>"

text \<open>The \<^verbatim>\<open>catch\<close> block; the result carries the message of the error.\<close>

definition generate_fail :: "string \<Rightarrow> app_state list \<Rightarrow> string option \<times> app_state list" where
  "generate_fail message tr =
     (Some message, emit (showError message) (emit (setLoading False) (emit hideProcessingOverlay tr)))"

text \<open>The two nested timeouts of 600 milliseconds.\<close>

definition generate_finish :: "payload \<Rightarrow> app_state list \<Rightarrow> string option \<times> app_state list" where
  "generate_finish data tr =
     (None, emit (displayResults data) (emit (setLoading False)
              (emit hideProcessingOverlay (emit (setStep Flash) tr))))"

definition generate_on_response ::
  "response \<Rightarrow> app_state list \<Rightarrow> string option \<times> app_state list" where
  "generate_on_response r tr =
     (if \<not> resp_ok r then
        (case resp_json r of
           Rejected m \<Rightarrow> generate_fail m tr
         | Resolved err \<Rightarrow>
             generate_fail (or_else (p_error err) (''HTTP '' @ string_of_nat (resp_status r))) tr)
      else
        (let tr1 = emit (setStep Summarize) tr
         in case resp_json r of
              Rejected m \<Rightarrow> generate_fail m tr1
            | Resolved data \<Rightarrow>
                if \<not> p_success data then generate_fail (or_else (p_error data) ''Unknown error'') tr1
                else generate_finish data
                       (emit (\<lambda>s. s\<lparr>notesData := data\<rparr>) (emit (setStep Quiz) tr1))))"

definition generate_on_fetch ::
  "generate_env \<Rightarrow> app_state list \<Rightarrow> string option \<times> app_state list" where
  "generate_on_fetch env tr =
     (case env_fetch env of
        Rejected m \<Rightarrow> generate_fail m tr
      | Resolved r \<Rightarrow> generate_on_response r tr)"

definition generate_click :: "generate_env \<Rightarrow> app_state \<Rightarrow> string option \<times> app_state list" where
  "generate_click env s =
     (let tr = emit showProcessingOverlay [setLoading True s];
          cur = last tr
      in if activeMode cur = Upload \<and> uploadedFile cur \<noteq> None then
           generate_on_fetch env
             (emit (send (TranscribeForm (the (uploadedFile cur)))) (emit (setStep Transcribe) tr))
         else if activeMode cur = Record \<and> recordedBlob cur \<noteq> None then
           (case env_reader env of
              Rejected m \<Rightarrow> generate_fail m tr
            | Resolved url \<Rightarrow>
                generate_on_fetch env
                  (emit (send (TranscribeJson (after_first_comma url)))
                     (emit (setStep Transcribe) tr)))
         else generate_fail (env_undefined_message env) tr)"

text \<open>
  Progress of a state: how many steps carry a marker. A step is seen as active when it
  carries the marker \<^verbatim>\<open>active\<close> and the overlay that shows the steps is not hidden.
\<close>

definition progress_rank :: "app_state \<Rightarrow> nat" where
  "progress_rank s = length (filter (\<lambda>c. c \<noteq> Pending) (step_cls s))"

definition progress_shape :: "step_class list \<Rightarrow> bool" where
  "progress_shape cs =
     (length (filter (\<lambda>c. c = Active) cs) \<le> 1 \<and>
      (\<forall>i < length cs. cs ! i = Active \<longrightarrow>
         (\<forall>j < i. cs ! j = Done) \<and> (\<forall>j < length cs. i < j \<longrightarrow> cs ! j = Pending)))"

definition visually_active :: "app_state \<Rightarrow> nat \<Rightarrow> bool" where
  "visually_active s i = (\<not> overlay_hidden s \<and> i < length (step_cls s) \<and> step_cls s ! i = Active)"

section \<open>PDF export\<close>

definition busy_label :: string where
  "busy_label = [CHR 0xE2, CHR 0x8F, CHR 0xB3] @ '' Generating PDF...''"

definition idle_label :: string where
  "idle_label = [CHR 0xE2, CHR 0xAC, CHR 0x87, CHR 0xEF, CHR 0xB8, CHR 0x8F] @ '' Download PDF''"

definition export_begin :: "app_state \<Rightarrow> app_state" where
  "export_begin s =
     send (GeneratePdf (notesData s)) (s\<lparr>downloadBtn_text := busy_label, downloadBtn_disabled := True\<rparr>)"

definition export_catch :: "string \<Rightarrow> app_state \<Rightarrow> app_state" where
  "export_catch message s = showError (''Failed to generate PDF: '' @ message) s"

definition export_finally :: "app_state \<Rightarrow> app_state" where
  "export_finally s = s\<lparr>downloadBtn_text := idle_label, downloadBtn_disabled := False\<rparr>"

text \<open>
  The click handler of the download button; the first component is the message of the
  error the \<^verbatim>\<open>catch\<close> block received, \<open>None\<close> when the \<^verbatim>\<open>try\<close> block ran to its end.
\<close>

definition export_click :: "response promise \<Rightarrow> app_state \<Rightarrow> string option \<times> app_state" where
  "export_click fetched s =
     (let s1 = export_begin s
      in case fetched of
           Rejected m \<Rightarrow> (Some m, export_finally (export_catch m s1))
         | Resolved r \<Rightarrow>
             if \<not> resp_ok r then
               (Some ''PDF generation failed'', export_finally (export_catch ''PDF generation failed'' s1))
             else
               (case resp_blob r of
                  Rejected m \<Rightarrow> (Some m, export_finally (export_catch m s1))
                | Resolved b \<Rightarrow>
                    (None, export_finally (s1\<lparr>downloads := downloads s1 @ [(''lecture_notes.pdf'', b)]\<rparr>))))"

section \<open>Sessions\<close>

text \<open>
  What can happen in a session, one after the other: a user action on the inputs, a tick of
  the recording timer, a chunk of data from the recorder, the timeout of the toast, a click
  on the generate button (with what the surroundings answer) and a click on the download
  button (with what \<^verbatim>\<open>fetch\<close> answers). A click on the generate button leaves the state its
  run ends in.
\<close>

datatype event =
    UserAction action
  | TimerTick
  | DataAvailable blob
  | ToastExpire
  | GenerateClick generate_env
  | ExportClick "response promise"

fun occur :: "event \<Rightarrow> app_state \<Rightarrow> app_state" where
  "occur (UserAction a) s = perform a s"
| "occur TimerTick s = timer_tick s"
| "occur (DataAvailable chunk) s = ondataavailable chunk s"
| "occur ToastExpire s = toast_expire s"
| "occur (GenerateClick env) s = last (snd (generate_click env s))"
| "occur (ExportClick fetched) s = snd (export_click fetched s)"

fun session :: "event list \<Rightarrow> app_state \<Rightarrow> app_state" where
  "session [] s = s"
| "session (e # es) s = session es (occur e s)"

text \<open>
  No result has been produced in a session when every click on the generate button in it
  ended in the \<^verbatim>\<open>catch\<close> block.
\<close>

fun generation_failed :: "event \<Rightarrow> app_state \<Rightarrow> bool" where
  "generation_failed (GenerateClick env) s = (fst (generate_click env s) \<noteq> None)"
| "generation_failed e s = True"

fun no_result_produced :: "event list \<Rightarrow> app_state \<Rightarrow> bool" where
  "no_result_produced [] s = True"
| "no_result_produced (e # es) s = (generation_failed e s \<and> no_result_produced es (occur e s))"

section \<open>A page for examples\<close>

text \<open>
  A state to run the handlers on: the module variables at their initial values and every
  page element at rest (nothing selected, nothing shown, no step marked).
\<close>

definition example_page :: app_state where
  "example_page =
     \<lparr>mediaRecorder = None, audioChunks = [], recordingTimer = None, recordingSeconds = 0,
      uploadedFile = None, recordedBlob = None, activeMode = Upload, notesData = empty_object,
      intervals = [], next_interval = 0, open_streams = 0, toast_timeouts = 0,
      requests = [], downloads = [],
      tab_active = Upload, fileInput_value = [], fileNameDisp_text = [],
      filePreview_hidden = True, recordBtn_hidden = False, stopBtn_hidden = True,
      timerEl_text = ''00:00'', recStatus_text = [], micVisual_recording = False,
      audioPlayback_hidden = True, audioPlayback_src = None, generateBtn_disabled = True,
      btnText_hidden = False, btnLoader_hidden = True, overlay_hidden = True,
      step_cls = [Pending, Pending, Pending, Pending], resultsSection_hidden = True,
      downloadBtn_text = idle_label, downloadBtn_disabled = False,
      toastMsg_text = [], errorToast_hidden = True,
      transcript_text = [], summary_text = [], bullets_list = [], quiz_grid = [],
      flashcard_grid = []\<rparr>"

section \<open>Auxiliary notions for the proofs\<close>

text \<open>
  What a state shows of the pipeline: the markers of the four steps and whether the
  overlay is hidden; and the markers \<^verbatim>\<open>setStep\<close> writes for each stage.
\<close>

definition view :: "app_state \<Rightarrow> step_class list \<times> bool" where
  "view s = (step_cls s, overlay_hidden s)"

definition stage_cls :: "stage \<Rightarrow> step_class list" where
  "stage_cls st =
     (case st of
        Transcribe \<Rightarrow> [Active, Pending, Pending, Pending]
      | Summarize \<Rightarrow> [Done, Active, Pending, Pending]
      | Quiz \<Rightarrow> [Done, Done, Active, Pending]
      | Flash \<Rightarrow> [Done, Done, Done, Active])"

text \<open>The four shapes of a run, seen through the step markers and the overlay.\<close>

definition shape_early :: "(step_class list \<times> bool) list" where
  "shape_early =
     [([Pending, Pending, Pending, Pending], False), ([Pending, Pending, Pending, Pending], True),
      ([Pending, Pending, Pending, Pending], True), ([Pending, Pending, Pending, Pending], True)]"

definition shape_request :: "(step_class list \<times> bool) list" where
  "shape_request =
     [([Pending, Pending, Pending, Pending], False),
      ([Active, Pending, Pending, Pending], False), ([Active, Pending, Pending, Pending], False),
      ([Active, Pending, Pending, Pending], True), ([Active, Pending, Pending, Pending], True),
      ([Active, Pending, Pending, Pending], True)]"

definition shape_payload :: "(step_class list \<times> bool) list" where
  "shape_payload =
     [([Pending, Pending, Pending, Pending], False),
      ([Active, Pending, Pending, Pending], False), ([Active, Pending, Pending, Pending], False),
      ([Done, Active, Pending, Pending], False),
      ([Done, Active, Pending, Pending], True), ([Done, Active, Pending, Pending], True),
      ([Done, Active, Pending, Pending], True)]"

definition shape_success :: "(step_class list \<times> bool) list" where
  "shape_success =
     [([Pending, Pending, Pending, Pending], False),
      ([Active, Pending, Pending, Pending], False), ([Active, Pending, Pending, Pending], False),
      ([Done, Active, Pending, Pending], False),
      ([Done, Done, Active, Pending], False), ([Done, Done, Active, Pending], False),
      ([Done, Done, Done, Active], False),
      ([Done, Done, Done, Active], True), ([Done, Done, Done, Active], True),
      ([Done, Done, Done, Active], True)]"

text \<open>
  Examples: an OK response carrying a document and a failed one; a state with a lecture
  selected for upload; answers of the transcription endpoint with a logical failure and
  with a result; a short recording session.
\<close>

definition pdf_response :: response where
  "pdf_response =
     \<lparr>resp_ok = True, resp_status = 200, resp_json = Rejected [],
      resp_blob = Resolved \<lparr>blob_bytes = [37, 80, 68, 70], blob_type = ''application/pdf''\<rparr>\<rparr>"

definition error_response :: response where
  "error_response =
     \<lparr>resp_ok = False, resp_status = 500, resp_json = Rejected [], resp_blob = Rejected []\<rparr>"

definition lecture_selected :: app_state where
  "lecture_selected =
     example_page
       \<lparr>uploadedFile :=
          Some \<lparr>file_name = ''lecture.mp3'', file_type = ''audio/mpeg'', file_size = 2400000\<rparr>,
        generateBtn_disabled := False\<rparr>"

definition cold_start_env :: generate_env where
  "cold_start_env =
     \<lparr>env_reader = Rejected [],
      env_fetch =
        Resolved \<lparr>resp_ok = True, resp_status = 200,
                  resp_json = Resolved (empty_object\<lparr>p_error := Some ''model cold start''\<rparr>),
                  resp_blob = Rejected []\<rparr>,
      env_undefined_message = []\<rparr>"

definition success_env :: generate_env where
  "success_env =
     \<lparr>env_reader = Rejected [],
      env_fetch =
        Resolved \<lparr>resp_ok = True, resp_status = 200,
                  resp_json =
                    Resolved (empty_object\<lparr>p_success := True, p_transcript := Some ''Hello.''\<rparr>),
                  resp_blob = Rejected []\<rparr>,
      env_undefined_message = []\<rparr>"

definition failed_session :: "event list" where
  "failed_session =
     [UserAction (SelectUpload
        \<lparr>file_name = ''lecture.mp3'', file_type = ''audio/mpeg'', file_size = 2400000\<rparr>),
      GenerateClick cold_start_env,
      ExportClick (Resolved error_response)]"

definition three_seconds :: "action list" where
  "three_seconds =
     [SwitchTab Record, RecordStart Acquired,
      RecordStop \<lparr>blob_bytes = [1, 2, 3], blob_type = ''audio/webm''\<rparr>]"

section \<open>Properties of the text functions\<close>

lemma replace_all_append:
  "replace_all c r (xs @ ys) = replace_all c r xs @ replace_all c r ys"
  by (induction xs) auto

text \<open>
  The five successive replacements act as one pass that maps every character to its
  entity: no later replacement touches what an earlier one wrote.
\<close>

lemma escape_chain:
  "replace_all (CHR 0x27) ''&#039;''
     (replace_all (CHR 0x22) ''&quot;''
       (replace_all CHR ''>'' ''&gt;''
         (replace_all CHR ''<'' ''&lt;''
           (replace_all CHR ''&'' ''&amp;'' s)))) = concat (map entity_of s)"
  by (induction s) (simp_all add: entity_of_def replace_all_append)

lemma escapeHtml_Some: "escapeHtml (Some s) = concat (map entity_of s)"
  by (simp add: escapeHtml_def escape_chain)

lemma escapeHtml_falsy: "falsy t \<Longrightarrow> escapeHtml t = []"
  by (auto simp: falsy_def escapeHtml_def split: option.splits)

lemma no_raw_special_entity:
  "no_raw_special (entity_of c @ rest) = no_raw_special rest"
  by (simp add: entity_of_def entities_def starts_with_def)

lemma no_raw_special_entities: "no_raw_special (concat (map entity_of s))"
  by (induction s) (simp_all add: no_raw_special_entity)

lemma or_else_verbatim: "t \<noteq> [] \<Longrightarrow> or_else (Some t) d = t"
  by (simp add: or_else_def)

lemma or_else_falsy: "or_else t d = (if falsy t then d else the t)"
  by (auto simp: falsy_def or_else_def split: option.splits)

lemma ends_with_iff: "ends_with s suf \<longleftrightarrow> (\<exists>pre. s = pre @ suf)"
proof
  assume "ends_with s suf"
  then have "s = take (length s - length suf) s @ suf"
    by (metis append_take_drop_id ends_with_def)
  then show "\<exists>pre. s = pre @ suf" ..
next
  assume "\<exists>pre. s = pre @ suf"
  then show "ends_with s suf" by (auto simp: ends_with_def)
qed

section \<open>Rendering\<close>

text \<open>
  C4: for every text, \<^verbatim>\<open>escapeHtml\<close> replaces each of the characters \<open>&\<close>, \<open><\<close>, \<open>>\<close>, the double
  quote and the apostrophe by its entity, so that none of them is left in raw form in the
  output (the only \<open>&\<close> left are those that start an entity); and a transcript or summary
  that is present is put into its plain-text element as it is, with no substitution.
\<close>

theorem escapeHtml_entities_and_verbatim_text:
  "no_raw_special (escapeHtml field)
   \<and> (\<forall>t. field = Some t \<longrightarrow> escapeHtml field = concat (map entity_of t))
   \<and> (\<forall>t. p_transcript data = Some t \<and> t \<noteq> [] \<longrightarrow> transcript_text (displayResults data s) = t)
   \<and> (\<forall>t. p_summary data = Some t \<and> t \<noteq> [] \<longrightarrow> summary_text (displayResults data s) = t)"
proof (intro conjI allI impI)
  show "no_raw_special (escapeHtml field)"
  proof (cases field)
    case None
    then show ?thesis by (simp add: escapeHtml_def)
  next
    case (Some t)
    then show ?thesis by (simp add: escapeHtml_Some no_raw_special_entities)
  qed
next
  fix t assume "field = Some t"
  then show "escapeHtml field = concat (map entity_of t)" by (simp add: escapeHtml_Some)
next
  fix t assume "p_transcript data = Some t \<and> t \<noteq> []"
  then show "transcript_text (displayResults data s) = t"
    by (simp add: displayResults_def or_else_verbatim)
next
  fix t assume "p_summary data = Some t \<and> t \<noteq> []"
  then show "summary_text (displayResults data s) = t"
    by (simp add: displayResults_def or_else_verbatim)
qed

theorem escapeHtml_entities_and_verbatim_text_witness:
  "no_raw_special (escapeHtml (Some (''<script>'' @ [CHR 0x22] @ ''&'' @ [CHR 0x27] @ ''</script>'')))
   \<and> escapeHtml (Some (''<script>'' @ [CHR 0x22] @ ''&'' @ [CHR 0x27] @ ''</script>''))
       = ''&lt;script&gt;&quot;&amp;&#039;&lt;/script&gt;''
   \<and> transcript_text (displayResults (empty_object\<lparr>p_transcript := Some ''a < b & c''\<rparr>) example_page)
       = ''a < b & c''
   \<and> summary_text (displayResults (empty_object\<lparr>p_summary := Some ''<b>x</b>''\<rparr>) example_page)
       = ''<b>x</b>''"
  using escapeHtml_entities_and_verbatim_text
    [of "Some (''<script>'' @ [CHR 0x22] @ ''&'' @ [CHR 0x27] @ ''</script>'')"
        "empty_object\<lparr>p_transcript := Some ''a < b & c'', p_summary := Some ''<b>x</b>''\<rparr>" example_page]
  by (simp add: entity_of_def displayResults_def or_else_def empty_object_def entities_def
      starts_with_def)

text \<open>
  C3 as it is stated fails: a quiz item without a question, a flashcard with an empty back
  and a payload without bullets render as the empty text and the empty list; no
  placeholder appears.
\<close>

theorem missing_fields_counterexample:
  "qv_question (hd (quiz_grid (displayResults
      (empty_object\<lparr>p_success := True, p_quiz := Some [\<lparr>question = None, answer = Some ''42''\<rparr>]\<rparr>)
      example_page))) = []
   \<and> cv_back (hd (flashcard_grid (displayResults
      (empty_object\<lparr>p_success := True, p_flashcards := Some [\<lparr>card_front = Some ''x'', card_back = Some []\<rparr>]\<rparr>)
      example_page))) = []
   \<and> bullets_list (displayResults (empty_object\<lparr>p_success := True\<rparr>) example_page) = []"
  by (simp add: displayResults_def empty_object_def or_empty_def render_quiz_item_def
      render_flashcard_def escapeHtml_def enumerate_eq_zip)

text \<open>
  C3, as the code has it: a transcript or a summary that is missing or empty is rendered as
  the placeholder text \<^verbatim>\<open>Transcript not available.\<close> or \<^verbatim>\<open>Summary not available.\<close>; missing
  bullets, quiz or flashcards are rendered as an empty list, and a missing or empty
  question, answer, front or back as the empty text, one block for each item; the
  rendering is defined on every such payload.
\<close>

theorem displayResults_missing_fields:
  "transcript_text (displayResults data s) =
     (if falsy (p_transcript data) then ''Transcript not available.'' else the (p_transcript data))
   \<and> summary_text (displayResults data s) =
     (if falsy (p_summary data) then ''Summary not available.'' else the (p_summary data))
   \<and> (p_bullets data = None \<longrightarrow> bullets_list (displayResults data s) = [])
   \<and> (p_quiz data = None \<longrightarrow> quiz_grid (displayResults data s) = [])
   \<and> (p_flashcards data = None \<longrightarrow> flashcard_grid (displayResults data s) = [])
   \<and> (\<forall>items. p_quiz data = Some items \<longrightarrow>
         length (quiz_grid (displayResults data s)) = length items
         \<and> (\<forall>i < length items.
              (falsy (question (items ! i)) \<longrightarrow> qv_question (quiz_grid (displayResults data s) ! i) = [])
            \<and> (falsy (answer (items ! i)) \<longrightarrow> qv_answer (quiz_grid (displayResults data s) ! i) = [])))
   \<and> (\<forall>cards. p_flashcards data = Some cards \<longrightarrow>
         length (flashcard_grid (displayResults data s)) = length cards
         \<and> (\<forall>i < length cards.
              (falsy (card_front (cards ! i)) \<longrightarrow> cv_front (flashcard_grid (displayResults data s) ! i) = [])
            \<and> (falsy (card_back (cards ! i)) \<longrightarrow> cv_back (flashcard_grid (displayResults data s) ! i) = [])))"
  by (simp add: displayResults_def or_else_falsy or_empty_def render_quiz_item_def
      render_flashcard_def escapeHtml_falsy nth_enumerate_eq)

theorem displayResults_missing_fields_witness:
  "transcript_text (displayResults
      (empty_object\<lparr>p_summary := Some [], p_quiz := Some [\<lparr>question = None, answer = Some []\<rparr>]\<rparr>)
      example_page) = ''Transcript not available.''
   \<and> summary_text (displayResults
      (empty_object\<lparr>p_summary := Some [], p_quiz := Some [\<lparr>question = None, answer = Some []\<rparr>]\<rparr>)
      example_page) = ''Summary not available.''
   \<and> bullets_list (displayResults
      (empty_object\<lparr>p_summary := Some [], p_quiz := Some [\<lparr>question = None, answer = Some []\<rparr>]\<rparr>)
      example_page) = []
   \<and> quiz_grid (displayResults
      (empty_object\<lparr>p_summary := Some [], p_quiz := Some [\<lparr>question = None, answer = Some []\<rparr>]\<rparr>)
      example_page) = [\<lparr>qv_number = ''Question 1'', qv_question = [], qv_answer = []\<rparr>]"
  using displayResults_missing_fields
    [of "empty_object\<lparr>p_summary := Some [], p_quiz := Some [\<lparr>question = None, answer = Some []\<rparr>]\<rparr>"
        example_page]
  by (simp add: displayResults_def empty_object_def or_else_def or_empty_def falsy_def
      render_quiz_item_def escapeHtml_def enumerate_eq_zip string_of_nat.simps digit_char_def)

section \<open>Upload selection and recording\<close>

lemma extension_match_iff:
  "extension_match name \<longleftrightarrow>
     (\<exists>ext \<in> {''.mp3'', ''.wav'', ''.webm'', ''.ogg'', ''.m4a'', ''.mp4''}.
        \<exists>pre. map upper_ascii name = pre @ map upper_ascii ext)"
  unfolding extension_match_def extension_alternatives_def ends_with_iff
  by simp

lemma allowed_iff:
  "t \<in> set allowed \<longleftrightarrow>
     t \<in> {''audio/mpeg'', ''audio/wav'', ''audio/webm'', ''audio/ogg'',
          ''audio/mp4'', ''video/mp4'', ''audio/x-m4a''}"
  by (simp add: allowed_def)

lemma handleFileSelect_cases:
  "handleFileSelect f s =
     (if file_type f \<in> set allowed \<or> extension_match (file_name f)
      then updateGenerateBtn
             (s\<lparr>uploadedFile := Some f,
                fileNameDisp_text :=
                  paperclip @ '' '' @ file_name f @ '' ('' @ formatBytes (file_size f) @ '')'',
                filePreview_hidden := False\<rparr>)
      else s\<lparr>toastMsg_text := unsupported_format_message, errorToast_hidden := False,
             toast_timeouts := Suc (toast_timeouts s)\<rparr>)"
  by (simp add: handleFileSelect_def showError_def)

text \<open>
  C5: \<^verbatim>\<open>handleFileSelect\<close> accepts a file if and only if its declared media type is one of
  the seven allowed types or its name ends, letter case ignored, with one of the six
  extensions. An accepted file becomes the selection; a rejected one only raises the
  notice about the unsupported format: the selection and every other part of the state
  stay as they were.
\<close>

theorem handleFileSelect_accepts_iff:
  "handleFileSelect f s =
     (if file_type f \<in> {''audio/mpeg'', ''audio/wav'', ''audio/webm'', ''audio/ogg'',
                          ''audio/mp4'', ''video/mp4'', ''audio/x-m4a''}
         \<or> (\<exists>ext \<in> {''.mp3'', ''.wav'', ''.webm'', ''.ogg'', ''.m4a'', ''.mp4''}.
               \<exists>pre. map upper_ascii (file_name f) = pre @ map upper_ascii ext)
      then updateGenerateBtn
             (s\<lparr>uploadedFile := Some f,
                fileNameDisp_text :=
                  paperclip @ '' '' @ file_name f @ '' ('' @ formatBytes (file_size f) @ '')'',
                filePreview_hidden := False\<rparr>)
      else s\<lparr>toastMsg_text := unsupported_format_message, errorToast_hidden := False,
             toast_timeouts := Suc (toast_timeouts s)\<rparr>)"
  using handleFileSelect_cases [of f s]
  by (simp only: allowed_iff extension_match_iff)

theorem handleFileSelect_accepts_iff_witness:
  "uploadedFile (handleFileSelect \<lparr>file_name = ''LECTURE.Mp3'', file_type = [], file_size = 2400000\<rparr> example_page)
     = Some \<lparr>file_name = ''LECTURE.Mp3'', file_type = [], file_size = 2400000\<rparr>
   \<and> handleFileSelect \<lparr>file_name = ''notes.mp3.txt'', file_type = ''text/plain'', file_size = 9\<rparr> example_page
     = example_page\<lparr>toastMsg_text := unsupported_format_message, errorToast_hidden := False,
         toast_timeouts := Suc (toast_timeouts example_page)\<rparr>"
proof -
  have a: "extension_match ''LECTURE.Mp3''"
    by (simp add: extension_match_def extension_alternatives_def ends_with_def upper_ascii_def)
  have b: "\<not> extension_match ''notes.mp3.txt''"
    by (simp add: extension_match_def extension_alternatives_def ends_with_def upper_ascii_def)
  have c: "''text/plain'' \<notin> set allowed"
    by (simp add: allowed_def)
  show ?thesis
    using handleFileSelect_accepts_iff
      [of "\<lparr>file_name = ''LECTURE.Mp3'', file_type = [], file_size = 2400000\<rparr>" example_page]
      handleFileSelect_accepts_iff
      [of "\<lparr>file_name = ''notes.mp3.txt'', file_type = ''text/plain'', file_size = 9\<rparr>" example_page]
      a b c
    unfolding extension_match_iff [symmetric] allowed_iff [symmetric]
    by (simp add: updateGenerateBtn_def)
qed


text \<open>
  The scenario of the specification: selecting \<^verbatim>\<open>lecture.mp3\<close> of 2,400,000 bytes shows the
  name with the size \<^verbatim>\<open>2.3 MB\<close> and enables the generate control; and the timer shows two
  minutes and five seconds as \<^verbatim>\<open>02:05\<close>.
\<close>

lemma lecture_selected_display:
  "fileNameDisp_text
     (handleFileSelect \<lparr>file_name = ''lecture.mp3'', file_type = ''audio/mpeg'', file_size = 2400000\<rparr>
        (init_state example_page)) = paperclip @ '' lecture.mp3 (2.3 MB)''
   \<and> generateBtn_disabled
     (handleFileSelect \<lparr>file_name = ''lecture.mp3'', file_type = ''audio/mpeg'', file_size = 2400000\<rparr>
        (init_state example_page)) = False"
  by (simp add: handleFileSelect_def allowed_def updateGenerateBtn_def init_state_def
      formatBytes_def toFixed1_def string_of_nat.simps digit_char_def)

lemma timer_display:
  "timerEl_text (timer_tick (s\<lparr>recordingSeconds := 124\<rparr>)) = ''02:05''"
  by (simp add: timer_tick_def padStart_def string_of_nat.simps digit_char_def)

text \<open>
  C10: when the microphone is refused, \<^verbatim>\<open>startRecording\<close> only shows the error notice. The
  recorder, the collected chunks, the recorded blob, the elapsed seconds, the timer and
  its display, and the visibility of the start and stop controls keep their values: every
  reset and every change of the page comes after the acquisition in the \<^verbatim>\<open>try\<close> block.
\<close>

theorem startRecording_denied_keeps_session:
  "startRecording PermissionDenied s =
     s\<lparr>toastMsg_text := microphone_message, errorToast_hidden := False,
       toast_timeouts := Suc (toast_timeouts s)\<rparr>
   \<and> mediaRecorder (startRecording PermissionDenied s) = mediaRecorder s
   \<and> audioChunks (startRecording PermissionDenied s) = audioChunks s
   \<and> recordedBlob (startRecording PermissionDenied s) = recordedBlob s
   \<and> recordingSeconds (startRecording PermissionDenied s) = recordingSeconds s
   \<and> recordingTimer (startRecording PermissionDenied s) = recordingTimer s
   \<and> intervals (startRecording PermissionDenied s) = intervals s
   \<and> timerEl_text (startRecording PermissionDenied s) = timerEl_text s
   \<and> recordBtn_hidden (startRecording PermissionDenied s) = recordBtn_hidden s
   \<and> stopBtn_hidden (startRecording PermissionDenied s) = stopBtn_hidden s"
  by (simp add: startRecording_def showError_def)

lemma stopRecording_total: "\<exists>s'. stopRecording s = Inr s'"
  by (auto simp: stopRecording_def recorder_stop_def split: option.splits)

text \<open>
  C8: \<^verbatim>\<open>stopRecording\<close> never throws; called before any recording was started it stops
  nothing and queues no event, the session keeps its initial values (no recorder, no
  chunks, zero seconds, no blob), and the cleanup of the page runs all the same: the start
  control shown, the stop control hidden, the microphone animation off, the status line
  rewritten.
\<close>

theorem stop_before_start_is_cleanup_only:
  "(\<exists>s'. stopRecording s = Inr s')
   \<and> stopRecording (init_state page) = Inr (stop_cleanup (init_state page))
   \<and> record_stop chunk (init_state page) = stop_cleanup (init_state page)
   \<and> mediaRecorder (stop_cleanup (init_state page)) = None
   \<and> audioChunks (stop_cleanup (init_state page)) = []
   \<and> recordingSeconds (stop_cleanup (init_state page)) = 0
   \<and> recordedBlob (stop_cleanup (init_state page)) = None
   \<and> intervals (stop_cleanup (init_state page)) = []
   \<and> stop_cleanup (init_state page) =
       (init_state page)\<lparr>recordBtn_hidden := False, stopBtn_hidden := True,
          micVisual_recording := False, recStatus_text := saved_status\<rparr>"
proof -
  have a: "\<exists>s'. stopRecording s = Inr s'" by (rule stopRecording_total)
  have b: "mediaRecorder (init_state page) = None" "recordingTimer (init_state page) = None"
    by (simp_all add: init_state_def)
  have c: "stop_cleanup (init_state page) =
       (init_state page)\<lparr>recordBtn_hidden := False, stopBtn_hidden := True,
          micVisual_recording := False, recStatus_text := saved_status\<rparr>"
    by (simp add: stop_cleanup_def clearInterval_def b)
  have d: "stopRecording (init_state page) = Inr (stop_cleanup (init_state page))"
    by (simp add: stopRecording_def b)
  have e: "record_stop chunk (init_state page) = stop_cleanup (init_state page)"
    by (simp add: record_stop_def d stop_event_queued_def b)
  show ?thesis
    unfolding d e
    by (intro conjI a refl c) (simp_all add: c, simp_all add: init_state_def)
qed

theorem stop_before_start_is_cleanup_only_witness:
  "stopRecording (init_state example_page) = Inr (stop_cleanup (init_state example_page))
   \<and> recordBtn_hidden (stop_cleanup (init_state example_page)) = False
   \<and> stopBtn_hidden (stop_cleanup (init_state example_page)) = True
   \<and> recStatus_text (stop_cleanup (init_state example_page)) = saved_status
   \<and> recordedBlob (stop_cleanup (init_state example_page)) = None"
  using stop_before_start_is_cleanup_only
    [of "init_state example_page" example_page "\<lparr>blob_bytes = [], blob_type = []\<rparr>"]
  by (simp add: init_state_def)

section \<open>Properties of the export\<close>

text \<open>
  C9: whatever the export request does (the request rejects, the response is not OK, the
  body cannot be read, or all succeeds), the download button ends with its idle label and
  enabled; and when the attempt failed with a message, the notice
  \<^verbatim>\<open>Failed to generate PDF: \<close> followed by that message is shown.
\<close>

theorem export_restores_button:
  "downloadBtn_text (snd (export_click fetched s)) = idle_label
   \<and> downloadBtn_disabled (snd (export_click fetched s)) = False
   \<and> (\<forall>m. fst (export_click fetched s) = Some m \<longrightarrow>
         toastMsg_text (snd (export_click fetched s)) = ''Failed to generate PDF: '' @ m
         \<and> errorToast_hidden (snd (export_click fetched s)) = False)
   \<and> (fst (export_click fetched s) = None
        \<longleftrightarrow> (\<exists>r b. fetched = Resolved r \<and> resp_ok r \<and> resp_blob r = Resolved b))"
  by (auto simp: export_click_def export_finally_def export_catch_def showError_def Let_def
      split: promise.splits)

theorem export_restores_button_witness:
  "fst (export_click (Resolved \<lparr>resp_ok = False, resp_status = 500, resp_json = Rejected [],
          resp_blob = Rejected []\<rparr>) (example_page\<lparr>downloadBtn_text := ''x''\<rparr>))
     = Some ''PDF generation failed''
   \<and> downloadBtn_text (snd (export_click (Resolved \<lparr>resp_ok = False, resp_status = 500,
          resp_json = Rejected [], resp_blob = Rejected []\<rparr>) (example_page\<lparr>downloadBtn_text := ''x''\<rparr>)))
     = idle_label
   \<and> downloadBtn_disabled (snd (export_click (Resolved \<lparr>resp_ok = False, resp_status = 500,
          resp_json = Rejected [], resp_blob = Rejected []\<rparr>) (example_page\<lparr>downloadBtn_text := ''x''\<rparr>)))
     = False
   \<and> toastMsg_text (snd (export_click (Resolved \<lparr>resp_ok = False, resp_status = 500,
          resp_json = Rejected [], resp_blob = Rejected []\<rparr>) (example_page\<lparr>downloadBtn_text := ''x''\<rparr>)))
     = ''Failed to generate PDF: PDF generation failed''"
proof -
  have a: "fst (export_click (Resolved \<lparr>resp_ok = False, resp_status = 500, resp_json = Rejected [],
          resp_blob = Rejected []\<rparr>) (example_page\<lparr>downloadBtn_text := ''x''\<rparr>))
     = Some ''PDF generation failed''"
    by (simp add: export_click_def)
  show ?thesis
    using a export_restores_button [of "Resolved \<lparr>resp_ok = False, resp_status = 500,
          resp_json = Rejected [], resp_blob = Rejected []\<rparr>" "example_page\<lparr>downloadBtn_text := ''x''\<rparr>"]
    by simp
qed


section \<open>Properties of the generation pipeline\<close>

lemma step_cls_setStep: "step_cls (setStep st s) = stage_cls st"
  by (cases st) (simp_all add: setStep_def steps_def stage_cls_def enumerate_eq_zip upt_rec)

lemma view_simps:
  "view (setLoading b s) = view s"
  "view (showProcessingOverlay s) = ([Pending, Pending, Pending, Pending], False)"
  "view (hideProcessingOverlay s) = (fst (view s), True)"
  "view (setStep st s) = (stage_cls st, snd (view s))"
  "view (showError m s) = view s"
  "view (send r s) = view s"
  "view (displayResults data s) = view s"
  "view (s\<lparr>notesData := data\<rparr>) = view s"
  by (simp_all add: view_def setLoading_def showProcessingOverlay_def hideProcessingOverlay_def
      step_cls_setStep showError_def send_def displayResults_def steps_def)
     (simp add: setStep_def Let_def)

lemma last_emit: "last (emit f tr) = f (last tr)"
  by (simp add: emit_def)

lemma generate_fail_shape:
  "fst (generate_fail m tr) = Some m"
  "snd (generate_fail m tr) = tr @ [hideProcessingOverlay (last tr),
      setLoading False (hideProcessingOverlay (last tr)),
      showError m (setLoading False (hideProcessingOverlay (last tr)))]"
  by (simp_all add: generate_fail_def emit_def)

lemma generate_finish_shape:
  "fst (generate_finish data tr) = None"
  "snd (generate_finish data tr) = tr @ [setStep Flash (last tr),
      hideProcessingOverlay (setStep Flash (last tr)),
      setLoading False (hideProcessingOverlay (setStep Flash (last tr))),
      displayResults data (setLoading False (hideProcessingOverlay (setStep Flash (last tr))))]"
  by (simp_all add: generate_finish_def emit_def)

lemma generate_shapes:
  "(fst (generate_click env s) \<noteq> None \<and>
      map view (tl (snd (generate_click env s))) \<in> {shape_early, shape_request, shape_payload})
   \<or> (fst (generate_click env s) = None \<and>
      map view (tl (snd (generate_click env s))) = shape_success)"
  by (auto simp: generate_click_def generate_on_fetch_def generate_on_response_def
      generate_fail_shape generate_finish_shape emit_def Let_def view_simps
      shape_early_def shape_request_def shape_payload_def shape_success_def stage_cls_def
      split: promise.splits)


lemma progress_shape_literals:
  "progress_shape [Pending, Pending, Pending, Pending]"
  "progress_shape [Active, Pending, Pending, Pending]"
  "progress_shape [Done, Active, Pending, Pending]"
  "progress_shape [Done, Done, Active, Pending]"
  "progress_shape [Done, Done, Done, Active]"
  by (simp_all add: progress_shape_def nth_Cons' All_less_Suc)

lemma shape_props:
  assumes "vs \<in> {shape_early, shape_request, shape_payload, shape_success}"
  shows "vs \<noteq> []"
    and "fst (hd vs) = [Pending, Pending, Pending, Pending]"
    and "\<forall>v \<in> set vs. progress_shape (fst v)"
    and "sorted (map (\<lambda>v. length (filter (\<lambda>c. c \<noteq> Pending) (fst v))) vs)"
    and "snd (last vs)"
  using assms
  by (auto simp: shape_early_def shape_request_def shape_payload_def shape_success_def
      progress_shape_literals)

lemma shape_success_props:
  "fst (last shape_success) ! 3 = Active"
  "([Done, Done, Done, Active], False) \<in> set shape_success"
  by (simp_all add: shape_success_def)

lemma nth_one_tl: "tl xs \<noteq> [] \<Longrightarrow> xs ! Suc 0 = hd (tl xs)"
  by (cases xs; cases "tl xs") auto

lemma last_tl': "tl xs \<noteq> [] \<Longrightarrow> last xs = last (tl xs)"
  by (cases xs) auto

lemma selection_at_start:
  "activeMode (last (emit showProcessingOverlay [setLoading True s])) = activeMode s"
  "uploadedFile (last (emit showProcessingOverlay [setLoading True s])) = uploadedFile s"
  "recordedBlob (last (emit showProcessingOverlay [setLoading True s])) = recordedBlob s"
  by (simp_all add: emit_def showProcessingOverlay_def setLoading_def)

lemma after_failure:
  "toastMsg_text (showError m (setLoading False (hideProcessingOverlay x))) = m"
  "errorToast_hidden (showError m (setLoading False (hideProcessingOverlay x))) = False"
  "overlay_hidden (showError m (setLoading False (hideProcessingOverlay x))) = True"
  "generateBtn_disabled (showError m (setLoading False (hideProcessingOverlay x))) = False"
  by (simp_all add: showError_def setLoading_def hideProcessingOverlay_def)

text \<open>
  C6: in every run of the generate handler the steps are reset to all pending at the
  start; from then on every state has at most one active step, with all steps before it
  done and all after it pending; the progress never goes back; a run that succeeds ends
  with the last step, flash, active and has shown it in the overlay; a run that fails ends
  with the overlay hidden, so that no step is seen as active.
\<close>

theorem generate_progress:
  "step_cls (snd (generate_click env s) ! 1) = [Pending, Pending, Pending, Pending]
   \<and> (\<forall>st \<in> set (tl (snd (generate_click env s))). progress_shape (step_cls st))
   \<and> sorted (map progress_rank (tl (snd (generate_click env s))))
   \<and> (fst (generate_click env s) = None \<longrightarrow>
        step_cls (last (snd (generate_click env s))) ! 3 = Active
        \<and> (\<exists>st \<in> set (snd (generate_click env s)). visually_active st 3))
   \<and> (fst (generate_click env s) \<noteq> None \<longrightarrow>
        overlay_hidden (last (snd (generate_click env s)))
        \<and> (\<forall>i. \<not> visually_active (last (snd (generate_click env s))) i))"
proof -
  define tr where "tr = snd (generate_click env s)"
  define vs where "vs = map view (tl tr)"
  have sh: "vs \<in> {shape_early, shape_request, shape_payload, shape_success}"
    and ok: "fst (generate_click env s) = None \<Longrightarrow> vs = shape_success"
    using generate_shapes [of env s] by (auto simp: vs_def tr_def)
  note p = shape_props [OF sh]
  have ne: "tl tr \<noteq> []" using p(1) by (simp add: vs_def)
  have a: "step_cls (tr ! 1) = [Pending, Pending, Pending, Pending]"
    using p(2) ne by (simp add: nth_one_tl vs_def hd_map view_def)
  have b: "\<forall>st \<in> set (tl tr). progress_shape (step_cls st)"
    using p(3) by (simp add: vs_def view_def)
  have c: "sorted (map progress_rank (tl tr))"
  proof -
    have "progress_rank = (\<lambda>x. length (filter (\<lambda>c. c \<noteq> Pending) (step_cls x)))"
      by (rule ext) (simp add: progress_rank_def)
    then show ?thesis using p(4) by (simp add: vs_def view_def comp_def)
  qed
  have hid: "overlay_hidden (last tr)"
    using p(5) ne by (simp add: vs_def last_map view_def last_tl')
  have d: "step_cls (last tr) ! 3 = Active \<and> (\<exists>st \<in> set tr. visually_active st 3)"
    if "fst (generate_click env s) = None"
  proof -
    have eq: "map view (tl tr) = shape_success" using ok [OF that] by (simp add: vs_def)
    have "fst (last (map view (tl tr))) ! 3 = Active"
      by (simp only: eq shape_success_props)
    then have d1: "step_cls (last tr) ! 3 = Active"
      using ne by (simp add: last_map view_def last_tl')
    have "([Done, Done, Done, Active], False) \<in> set (map view (tl tr))"
      by (simp only: eq shape_success_props)
    then obtain st where st: "st \<in> set (tl tr)" "view st = ([Done, Done, Done, Active], False)"
      by auto
    then have "visually_active st 3"
      by (simp add: visually_active_def view_def)
    moreover have "st \<in> set tr" using st(1) by (cases tr) auto
    ultimately show ?thesis using d1 by blast
  qed
  show ?thesis
    unfolding tr_def [symmetric]
    using a b c d hid by (simp add: visually_active_def tr_def)
qed

theorem generate_progress_witness:
  "fst (generate_click success_env lecture_selected) = None
   \<and> step_cls (last (snd (generate_click success_env lecture_selected))) ! 3 = Active
   \<and> sorted (map progress_rank (tl (snd (generate_click success_env lecture_selected))))
   \<and> fst (generate_click cold_start_env lecture_selected) \<noteq> None
   \<and> overlay_hidden (last (snd (generate_click cold_start_env lecture_selected)))"
proof -
  have a: "fst (generate_click success_env lecture_selected) = None"
    by (simp add: generate_click_def Let_def selection_at_start generate_on_fetch_def
        generate_on_response_def generate_finish_shape success_env_def lecture_selected_def
        example_page_def empty_object_def)
  have b: "fst (generate_click cold_start_env lecture_selected) \<noteq> None"
    by (simp add: generate_click_def Let_def selection_at_start generate_on_fetch_def
        generate_on_response_def generate_fail_shape cold_start_env_def lecture_selected_def
        example_page_def empty_object_def)
  show ?thesis
    using a b generate_progress [of success_env lecture_selected]
      generate_progress [of cold_start_env lecture_selected]
    by simp
qed

text \<open>
  The marker itself stays on the step inside the hidden overlay until the next run resets
  it: after a rejected request the first step still carries \<^verbatim>\<open>active\<close>.
\<close>

lemma marker_kept_in_hidden_overlay:
  assumes "activeMode s = Upload" and "uploadedFile s \<noteq> None" and "env_fetch env = Rejected m"
  shows "step_cls (last (snd (generate_click env s))) = [Active, Pending, Pending, Pending]
         \<and> overlay_hidden (last (snd (generate_click env s)))"
proof -
  define tr where
    "tr = emit (send (TranscribeForm (the (uploadedFile s))))
            (emit (setStep Transcribe) (emit showProcessingOverlay [setLoading True s]))"
  have run: "generate_click env s = generate_fail m tr"
    using assms
    by (simp add: generate_click_def Let_def selection_at_start generate_on_fetch_def tr_def)
  have "view (last tr) = (stage_cls Transcribe, False)"
    by (simp add: tr_def last_emit view_simps)
  then have "view (last (snd (generate_fail m tr))) = (stage_cls Transcribe, True)"
    by (simp add: generate_fail_shape view_simps)
  then show ?thesis
    by (simp add: run view_def stage_cls_def)
qed

text \<open>
  C7: when the transcription endpoint answers with an OK status and a payload whose
  success flag is false and whose error field is a message (such as
  \<^verbatim>\<open>model cold start\<close>), the run fails with that message, which is shown in the notice; the
  overlay is hidden and the generate control is enabled again.
\<close>

theorem backend_error_surfaces:
  assumes "(activeMode s = Upload \<and> uploadedFile s \<noteq> None)
           \<or> (activeMode s = Record \<and> recordedBlob s \<noteq> None \<and> env_reader env = Resolved url)"
    and "env_fetch env = Resolved r" and "resp_ok r" and "resp_json r = Resolved data"
    and "\<not> p_success data" and "p_error data = Some m" and "m \<noteq> []"
  shows "fst (generate_click env s) = Some m
   \<and> toastMsg_text (last (snd (generate_click env s))) = m
   \<and> errorToast_hidden (last (snd (generate_click env s))) = False
   \<and> overlay_hidden (last (snd (generate_click env s))) = True
   \<and> generateBtn_disabled (last (snd (generate_click env s))) = False"
proof -
  have "or_else (p_error data) ''Unknown error'' = m"
    using assms(6,7) by (simp add: or_else_def)
  then have "\<exists>tr. generate_click env s = generate_fail m tr"
    using assms
    by (auto simp: generate_click_def Let_def selection_at_start generate_on_fetch_def
        generate_on_response_def)
  then obtain tr where "generate_click env s = generate_fail m tr" ..
  then show ?thesis
    by (simp add: generate_fail_shape after_failure)
qed

theorem backend_error_surfaces_witness:
  "fst (generate_click cold_start_env lecture_selected) = Some ''model cold start''
   \<and> toastMsg_text (last (snd (generate_click cold_start_env lecture_selected))) = ''model cold start''
   \<and> errorToast_hidden (last (snd (generate_click cold_start_env lecture_selected))) = False
   \<and> overlay_hidden (last (snd (generate_click cold_start_env lecture_selected))) = True
   \<and> generateBtn_disabled (last (snd (generate_click cold_start_env lecture_selected))) = False"
  using backend_error_surfaces
    [of lecture_selected cold_start_env "[]"
        "\<lparr>resp_ok = True, resp_status = 200,
          resp_json = Resolved (empty_object\<lparr>p_error := Some ''model cold start''\<rparr>),
          resp_blob = Rejected []\<rparr>"
        "empty_object\<lparr>p_error := Some ''model cold start''\<rparr>" "''model cold start''"]
  by (simp add: cold_start_env_def lecture_selected_def example_page_def empty_object_def)

section \<open>The generate gate\<close>

lemmas recording_defs =
  startRecording_def reset_session_def showError_def record_stop_def stopRecording_def
  recorder_stop_def stop_cleanup_def clearInterval_def stop_event_queued_def onstop_def
  ondataavailable_def updateGenerateBtn_def switch_tab_def


text \<open>
  Every action but a start of recording that gets the microphone leaves the generate
  control in step with the selection.
\<close>

lemma gate_kept_by_other_actions:
  assumes "generateBtn_disabled s = (\<not> isGenerateReady s)"
    and "a \<noteq> RecordStart Acquired" and "a \<noteq> RecordStart RecorderUnsupported"
  shows "generateBtn_disabled (perform a s) = (\<not> isGenerateReady (perform a s))"
proof (cases a)
  case (SelectUpload f)
  then show ?thesis using assms(1)
    by (simp add: handleFileSelect_def showError_def updateGenerateBtn_def isGenerateReady_def)
next
  case ClearUpload
  then show ?thesis
    by (simp add: remove_file_def updateGenerateBtn_def isGenerateReady_def)
next
  case (SwitchTab m)
  then show ?thesis
    by (simp add: switch_tab_def updateGenerateBtn_def isGenerateReady_def)
next
  case (RecordStart acq)
  then have "acq = PermissionDenied" using assms(2,3) by (cases acq) auto
  then show ?thesis using assms(1) RecordStart
    by (simp add: startRecording_def showError_def isGenerateReady_def)
next
  case (RecordStop chunk)
  then show ?thesis using assms(1)
    by (auto simp: recording_defs isGenerateReady_def Let_def split: option.splits)
qed

text \<open>
  C2 fails on the code. \<^verbatim>\<open>startRecording\<close> clears \<^verbatim>\<open>recordedBlob\<close> and does not call
  \<^verbatim>\<open>updateGenerateBtn\<close>, as every other handler that changes a selection does. After
  switching to the record tab, recording, stopping and starting to record again, the
  generate control is enabled although the active mode is record and no recorded blob
  exists; a click on it then sends nothing and fails on the response that was never
  assigned.
\<close>

theorem gate_stale_after_restart:
  "generateBtn_disabled
     (run [SwitchTab Record, RecordStart Acquired, RecordStop chunk, RecordStart Acquired]
        (init_state page)) = False
   \<and> activeMode
     (run [SwitchTab Record, RecordStart Acquired, RecordStop chunk, RecordStart Acquired]
        (init_state page)) = Record
   \<and> recordedBlob
     (run [SwitchTab Record, RecordStart Acquired, RecordStop chunk, RecordStart Acquired]
        (init_state page)) = None
   \<and> \<not> isGenerateReady
     (run [SwitchTab Record, RecordStart Acquired, RecordStop chunk, RecordStart Acquired]
        (init_state page))
   \<and> fst (generate_click env
     (run [SwitchTab Record, RecordStart Acquired, RecordStop chunk, RecordStart Acquired]
        (init_state page))) = Some (env_undefined_message env)"
proof -
  define s where
    "s = run [SwitchTab Record, RecordStart Acquired, RecordStop chunk, RecordStart Acquired]
           (init_state page)"
  have a: "generateBtn_disabled s = False" "activeMode s = Record" "recordedBlob s = None"
    by (simp_all add: s_def recording_defs init_state_def Let_def)
  have b: "\<not> isGenerateReady s"
    by (simp add: isGenerateReady_def a)
  have c: "fst (generate_click env s) = Some (env_undefined_message env)"
    by (simp add: generate_click_def Let_def selection_at_start a generate_fail_shape)
  show ?thesis
    using a b c by (simp add: s_def)
qed

section \<open>Export before any result\<close>

lemma notesData_perform: "notesData (perform a s) = notesData s"
proof (cases a)
  case (SelectUpload f)
  then show ?thesis by (simp add: handleFileSelect_def showError_def updateGenerateBtn_def)
next
  case ClearUpload
  then show ?thesis by (simp add: remove_file_def updateGenerateBtn_def)
next
  case (SwitchTab m)
  then show ?thesis by (simp add: switch_tab_def updateGenerateBtn_def)
next
  case (RecordStart acq)
  then show ?thesis by (cases acq) (simp_all add: recording_defs Let_def)
next
  case (RecordStop chunk)
  then show ?thesis by (auto simp: recording_defs Let_def split: option.splits)
qed

text \<open>
  Only the success path of the generate handler assigns \<^verbatim>\<open>notesData\<close> (line 221, after the
  check of the success flag): a run that fails, on whatever path, keeps the stored payload,
  and so does every other event.
\<close>

lemma notesData_handlers:
  "notesData (setLoading b s) = notesData s"
  "notesData (showProcessingOverlay s) = notesData s"
  "notesData (hideProcessingOverlay s) = notesData s"
  "notesData (setStep st s) = notesData s"
  "notesData (showError m s) = notesData s"
  "notesData (send r s) = notesData s"
  by (simp_all add: setLoading_def showProcessingOverlay_def hideProcessingOverlay_def
      setStep_def Let_def showError_def send_def)

lemma notesData_failed_generate:
  assumes "fst (generate_click env s) \<noteq> None"
  shows "notesData (last (snd (generate_click env s))) = notesData s"
  using assms
  by (auto simp: generate_click_def generate_on_fetch_def generate_on_response_def
      generate_fail_shape generate_finish_shape emit_def Let_def notesData_handlers
      split: promise.splits if_splits)

lemma notesData_export: "notesData (snd (export_click fetched s)) = notesData s"
  by (auto simp: export_click_def export_begin_def export_finally_def export_catch_def
      showError_def send_def Let_def split: promise.splits)

lemma notesData_occur:
  assumes "generation_failed e s"
  shows "notesData (occur e s) = notesData s"
proof (cases e)
  case (UserAction a)
  then show ?thesis by (simp add: notesData_perform)
next
  case TimerTick
  then show ?thesis by (simp add: timer_tick_def Let_def)
next
  case (DataAvailable chunk)
  then show ?thesis by (simp add: ondataavailable_def)
next
  case ToastExpire
  then show ?thesis by (simp add: toast_expire_def)
next
  case (GenerateClick env)
  then show ?thesis using assms by (simp add: notesData_failed_generate)
next
  case (ExportClick fetched)
  then show ?thesis by (simp add: notesData_export)
qed

lemma notesData_session:
  "no_result_produced evs s \<Longrightarrow> notesData (session evs s) = notesData s"
  by (induction evs arbitrary: s) (simp_all add: notesData_occur)

lemma notesData_without_result:
  "no_result_produced evs (init_state page) \<Longrightarrow>
     notesData (session evs (init_state page)) = empty_object"
  by (simp add: notesData_session init_state_def)

text \<open>A sequence of user actions alone is a session in which no result was produced.\<close>

lemma session_of_actions:
  "session (map UserAction acts) s = run acts s"
  "no_result_produced (map UserAction acts) s"
  by (induction acts arbitrary: s) simp_all

text \<open>
  C1, as the code has it: the export handler has no check for a missing result. In every
  session in which no generation has succeeded (user actions, timer and recorder events,
  failed generations and earlier exports, in any order) the stored payload is still the
  initial empty object; the handler sends it to the PDF endpoint and shows the busy label;
  what follows is decided by the response: an OK response with a body triggers the
  download and leaves the notice alone, a response that is not OK raises the notice
  \<^verbatim>\<open>Failed to generate PDF: PDF generation failed\<close>; the button ends with the idle label.
\<close>

theorem export_before_any_result:
  assumes "no_result_produced evs (init_state page)"
  shows "notesData (session evs (init_state page)) = empty_object
   \<and> requests (snd (export_click fetched (session evs (init_state page))))
     = requests (session evs (init_state page)) @ [GeneratePdf empty_object]
   \<and> downloadBtn_text (export_begin (session evs (init_state page))) = busy_label
   \<and> downloadBtn_text (snd (export_click fetched (session evs (init_state page)))) = idle_label
   \<and> (\<forall>r b. fetched = Resolved r \<and> resp_ok r \<and> resp_blob r = Resolved b \<longrightarrow>
         fst (export_click fetched (session evs (init_state page))) = None
         \<and> downloads (snd (export_click fetched (session evs (init_state page))))
             = downloads (session evs (init_state page)) @ [(''lecture_notes.pdf'', b)]
         \<and> toastMsg_text (snd (export_click fetched (session evs (init_state page))))
             = toastMsg_text (session evs (init_state page))
         \<and> errorToast_hidden (snd (export_click fetched (session evs (init_state page))))
             = errorToast_hidden (session evs (init_state page)))
   \<and> (\<forall>r. fetched = Resolved r \<and> \<not> resp_ok r \<longrightarrow>
         fst (export_click fetched (session evs (init_state page))) = Some ''PDF generation failed''
         \<and> downloads (snd (export_click fetched (session evs (init_state page))))
             = downloads (session evs (init_state page))
         \<and> toastMsg_text (snd (export_click fetched (session evs (init_state page))))
             = ''Failed to generate PDF: PDF generation failed'')"
proof -
  define st where "st = session evs (init_state page)"
  have nd: "notesData st = empty_object"
    using assms by (simp add: st_def notesData_without_result)
  show ?thesis
    unfolding st_def [symmetric]
    by (auto simp: export_click_def export_begin_def export_finally_def export_catch_def
        showError_def send_def Let_def nd split: promise.splits)
qed

theorem export_before_any_result_witness:
  "no_result_produced failed_session (init_state example_page)
   \<and> notesData (session failed_session (init_state example_page)) = empty_object
   \<and> requests (snd (export_click (Resolved pdf_response)
        (session failed_session (init_state example_page))))
     = requests (session failed_session (init_state example_page)) @ [GeneratePdf empty_object]
   \<and> fst (export_click (Resolved pdf_response)
        (session failed_session (init_state example_page))) = None
   \<and> fst (export_click (Resolved error_response)
        (session (map UserAction three_seconds) (init_state example_page)))
     = Some ''PDF generation failed''"
proof -
  have f: "fst (generate_click cold_start_env
             (handleFileSelect
                \<lparr>file_name = ''lecture.mp3'', file_type = ''audio/mpeg'', file_size = 2400000\<rparr>
                (init_state example_page))) \<noteq> None"
    by (simp add: generate_click_def Let_def selection_at_start generate_on_fetch_def
        generate_on_response_def generate_fail_shape cold_start_env_def handleFileSelect_def
        allowed_def updateGenerateBtn_def init_state_def empty_object_def)
  have a: "no_result_produced failed_session (init_state example_page)"
    using f by (simp add: failed_session_def)
  have b: "no_result_produced (map UserAction three_seconds) (init_state example_page)"
    by (rule session_of_actions)
  show ?thesis
    using a
      export_before_any_result [OF a, of "Resolved pdf_response"]
      export_before_any_result [OF b, of "Resolved error_response"]
    by (simp add: error_response_def pdf_response_def)
qed

text \<open>
  C1 as it is stated fails: with an endpoint that answers OK, the export right after a
  recording, before anything was generated, succeeds: no error is raised, the download is
  triggered, no notice is shown, and the label of the button was changed when the request
  started.
\<close>

theorem export_before_any_result_counterexample:
  "fst (export_click (Resolved pdf_response) (run three_seconds (init_state example_page))) = None
   \<and> downloads (snd (export_click (Resolved pdf_response) (run three_seconds (init_state example_page))))
       = [(''lecture_notes.pdf'', \<lparr>blob_bytes = [37, 80, 68, 70], blob_type = ''application/pdf''\<rparr>)]
   \<and> errorToast_hidden (snd (export_click (Resolved pdf_response) (run three_seconds (init_state example_page))))
   \<and> downloadBtn_text (export_begin (run three_seconds (init_state example_page)))
       \<noteq> downloadBtn_text (run three_seconds (init_state example_page))"
  by (simp add: export_click_def export_begin_def export_finally_def send_def pdf_response_def
      three_seconds_def recording_defs init_state_def example_page_def Let_def
      busy_label_def idle_label_def)

end
